theory Spec2Isabelle
  imports Complex_Main "HOL-Library.Sublist"
begin

section \<open>JavaScript values used by the components\<close>

text \<open>
  A string is a list of code units, and a \<open>char\<close> is a code unit below 256: the
  characters of Basic Latin and of the Latin-1 Supplement. \<open>String.prototype.includes\<close>
  asks whether the argument occurs as a contiguous run of the receiver. On these
  characters \<open>toLowerCase\<close> works on each code unit by itself: the capital letters are
  the code units 65 to 90 (\<open>A\<close> to \<open>Z\<close>) and 192 to 222 without the multiplication sign
  215 (the accented capitals, such as 201, capital E with acute accent), the small letter
  of a capital is the code unit 32 higher, and every other code unit is left as it is. A
  text with a code unit from 256 on is outside the model. \<open>Number.prototype.toString\<close>
  is modelled on integers, which print in decimal with a leading minus sign when negative.
\<close>

fun includes_s :: "string \<Rightarrow> string \<Rightarrow> bool" where
  "includes_s [] q = (q = [])"
| "includes_s (c # s) q = (prefix q (c # s) \<or> includes_s s q)"




definition digitChar :: "nat \<Rightarrow> char" where
  "digitChar d = char_of (48 + d)"

fun digitsOf :: "nat \<Rightarrow> string" where
  "digitsOf n = (if n < 10 then [digitChar n] else digitsOf (n div 10) @ [digitChar (n mod 10)])"

declare digitsOf.simps [simp del]

definition numberToString :: "int \<Rightarrow> string" where
  "numberToString i = (if i < 0 then CHR ''-'' # digitsOf (nat (- i)) else digitsOf (nat i))"

text \<open>
  A \<open>Date\<close> is its time value: an integer number of milliseconds since the epoch, or
  \<open>None\<close> for an invalid date (\<open>NaN\<close>). Parsing a date string is a service of the
  runtime and is passed in as \<open>Date_parse\<close>. Every relational comparison with an invalid
  date is false.
\<close>

type_synonym date = "int option"

definition date_ge :: "date \<Rightarrow> date \<Rightarrow> bool" where
  "date_ge a b = (case (a, b) of (Some x, Some y) \<Rightarrow> x \<ge> y | _ \<Rightarrow> False)"

definition date_le :: "date \<Rightarrow> date \<Rightarrow> bool" where
  "date_le a b = (case (a, b) of (Some x, Some y) \<Rightarrow> x \<le> y | _ \<Rightarrow> False)"

definition newDate :: "(string \<Rightarrow> date) \<Rightarrow> string option \<Rightarrow> date" where
  "newDate Date_parse s = (case s of None \<Rightarrow> None | Some t \<Rightarrow> Date_parse t)"


section \<open>The reservation record and the data context\<close>

text \<open>
  \<open>interface Reservation\<close> of the data context. Optional members are options. The two
  amounts are carried as data only: no arithmetic on them is modelled.
\<close>

record reservation =
  idR :: string
  reservationNumber :: int
  firstName :: string
  lastName :: string
  phone :: string
  appointmentDate :: string
  appointmentTime :: string
  totalPrice :: real
  depositPaid :: real
  isPaid :: bool
  depositPaidStatus :: bool
  restPaidStatus :: bool
  designImages :: "string list option"
  notesR :: "string option"
  artistId :: "string option"
  createdAt :: "string option"

text \<open>
  \<open>Partial<Reservation>\<close>: every member may be missing (\<open>None\<close>). An optional member
  that is supplied may be supplied as \<open>undefined\<close> (\<open>Some None\<close>).
\<close>

record updates =
  u_id :: "string option"
  u_reservationNumber :: "int option"
  u_firstName :: "string option"
  u_lastName :: "string option"
  u_phone :: "string option"
  u_appointmentDate :: "string option"
  u_appointmentTime :: "string option"
  u_totalPrice :: "real option"
  u_depositPaid :: "real option"
  u_isPaid :: "bool option"
  u_depositPaidStatus :: "bool option"
  u_restPaidStatus :: "bool option"
  u_designImages :: "string list option option"
  u_notes :: "string option option"
  u_artistId :: "string option option"
  u_createdAt :: "string option option"

definition noUpdates :: updates where
  "noUpdates = \<lparr> u_id = None, u_reservationNumber = None, u_firstName = None,
     u_lastName = None, u_phone = None, u_appointmentDate = None, u_appointmentTime = None,
     u_totalPrice = None, u_depositPaid = None, u_isPaid = None, u_depositPaidStatus = None,
     u_restPaidStatus = None, u_designImages = None, u_notes = None, u_artistId = None,
     u_createdAt = None \<rparr>"

text \<open>The object spread \<open>{ ...res, ...updates }\<close>: a supplied member wins.\<close>

definition pick :: "'a option \<Rightarrow> 'a \<Rightarrow> 'a" where
  "pick u old = (case u of None \<Rightarrow> old | Some v \<Rightarrow> v)"

definition spread :: "reservation \<Rightarrow> updates \<Rightarrow> reservation" where
  "spread res u = \<lparr>
     idR = pick (u_id u) (idR res),
     reservationNumber = pick (u_reservationNumber u) (reservationNumber res),
     firstName = pick (u_firstName u) (firstName res),
     lastName = pick (u_lastName u) (lastName res),
     phone = pick (u_phone u) (phone res),
     appointmentDate = pick (u_appointmentDate u) (appointmentDate res),
     appointmentTime = pick (u_appointmentTime u) (appointmentTime res),
     totalPrice = pick (u_totalPrice u) (totalPrice res),
     depositPaid = pick (u_depositPaid u) (depositPaid res),
     isPaid = pick (u_isPaid u) (isPaid res),
     depositPaidStatus = pick (u_depositPaidStatus u) (depositPaidStatus res),
     restPaidStatus = pick (u_restPaidStatus u) (restPaidStatus res),
     designImages = pick (u_designImages u) (designImages res),
     notesR = pick (u_notes u) (notesR res),
     artistId = pick (u_artistId u) (artistId res),
     createdAt = pick (u_createdAt u) (createdAt res) \<rparr>"

text \<open>
  The persistence layer is outside the program: what it answers to a write is a
  parameter. An insert answers with an error or with the stored row; an update and a
  delete answer with an error or with nothing. The argument of \<open>addReservation\<close> has
  type \<open>Omit<Reservation, 'id' | 'createdAt'>\<close>; it is carried as a reservation whose
  two omitted members the persistence layer does not read.
\<close>

type_synonym db_error = string

datatype db_request =
  InsertReq reservation
| UpdateReq string updates
| DeleteReq string

record backend =
  insert_row :: "reservation \<Rightarrow> db_error + reservation"
  update_rows :: "string \<Rightarrow> updates \<Rightarrow> db_error option"
  delete_rows :: "string \<Rightarrow> db_error option"

text \<open>
  The state of the provider: the collection held by \<open>useState\<close>, the lines written
  with \<open>console.error\<close>, and the requests sent to the persistence layer, oldest first.
\<close>

record data_state =
  reservations :: "reservation list"
  console :: "(string \<times> db_error) list"
  sent :: "db_request list"

text \<open>
  Each operation returns what the promise settles to (\<open>Inl e\<close>: rejected with \<open>e\<close>)
  and the state afterwards.
\<close>

definition addReservation ::
  "backend \<Rightarrow> reservation \<Rightarrow> data_state \<Rightarrow> (db_error + unit) \<times> data_state" where
  "addReservation db r st =
     (let st1 = st\<lparr>sent := sent st @ [InsertReq r]\<rparr> in
      case insert_row db r of
        Inl e \<Rightarrow> (Inl e, st1\<lparr>console := console st1 @ [(''Error adding reservation:'', e)]\<rparr>)
      | Inr data \<Rightarrow> (Inr (), st1\<lparr>reservations := data # reservations st1\<rparr>))"

definition updateReservation ::
  "backend \<Rightarrow> string \<Rightarrow> updates \<Rightarrow> data_state \<Rightarrow> (db_error + unit) \<times> data_state" where
  "updateReservation db i u st =
     (let st1 = st\<lparr>sent := sent st @ [UpdateReq i u]\<rparr> in
      case update_rows db i u of
        Some e \<Rightarrow> (Inl e, st1\<lparr>console := console st1 @ [(''Error updating reservation:'', e)]\<rparr>)
      | None \<Rightarrow>
          (Inr (), st1\<lparr>reservations :=
             map (\<lambda>res. if idR res = i then spread res u else res) (reservations st1)\<rparr>))"

definition deleteReservation ::
  "backend \<Rightarrow> string \<Rightarrow> data_state \<Rightarrow> (db_error + unit) \<times> data_state" where
  "deleteReservation db i st =
     (let st1 = st\<lparr>sent := sent st @ [DeleteReq i]\<rparr> in
      case delete_rows db i of
        Some e \<Rightarrow> (Inl e, st1\<lparr>console := console st1 @ [(''Error deleting reservation:'', e)]\<rparr>)
      | None \<Rightarrow> (Inr (), st1\<lparr>reservations := filter (\<lambda>res. idR res \<noteq> i) (reservations st1)\<rparr>))"


section \<open>The reservation list view\<close>





text \<open>The updates sent by the two payment buttons of a row.\<close>

definition depositPaidToggle :: "reservation \<Rightarrow> updates" where
  "depositPaidToggle r = noUpdates\<lparr>u_depositPaidStatus := Some (\<not> depositPaidStatus r)\<rparr>"

definition restPaidToggle :: "reservation \<Rightarrow> updates" where
  "restPaidToggle r = noUpdates\<lparr>
     u_restPaidStatus := Some (\<not> restPaidStatus r),
     u_isPaid := Some (if \<not> restPaidStatus r then True else isPaid r)\<rparr>"


section \<open>The analytics view\<close>

text \<open>
  \<open>getDateRange\<close>: \<open>today\<close> is local midnight of the day of \<open>now\<close>, computed by the
  runtime from the local calendar fields of \<open>now\<close> and passed in as \<open>localMidnight\<close>.
  The result is the pair of the time values of \<open>start\<close> and \<open>end\<close>.
\<close>

datatype period = Today | Yesterday | Week | Month

definition getDateRange :: "(int \<Rightarrow> int) \<Rightarrow> int \<Rightarrow> period \<Rightarrow> int \<times> int" where
  "getDateRange localMidnight now p =
     (let today = localMidnight now in
      case p of
        Today \<Rightarrow> (today, today + 24 * 60 * 60 * 1000 - 1)
      | Yesterday \<Rightarrow>
          (let yesterday = today - 24 * 60 * 60 * 1000
           in (yesterday, yesterday + 24 * 60 * 60 * 1000 - 1))
      | Week \<Rightarrow>
          (let weekAgo = today - 7 * 24 * 60 * 60 * 1000
           in (weekAgo, today + 24 * 60 * 60 * 1000 - 1))
      | Month \<Rightarrow>
          (let monthAgo = today - 30 * 24 * 60 * 60 * 1000
           in (monthAgo, today + 24 * 60 * 60 * 1000 - 1)))"

definition inRange :: "(string \<Rightarrow> date) \<Rightarrow> int \<times> int \<Rightarrow> reservation \<Rightarrow> bool" where
  "inRange Date_parse rng r =
     (let createdDate = newDate Date_parse (createdAt r)
      in date_ge createdDate (Some (fst rng)) \<and> date_le createdDate (Some (snd rng)))"

text \<open>
  The comparator of the sort is \<open>time b - time a\<close>: newest first, and the sort is stable.
  Every element that reaches the sort has a valid creation date.
\<close>

definition sortKey :: "(string \<Rightarrow> date) \<Rightarrow> reservation \<Rightarrow> int" where
  "sortKey Date_parse r = (case newDate Date_parse (createdAt r) of Some t \<Rightarrow> - t | None \<Rightarrow> 0)"

definition filteredReservationsA ::
  "(string \<Rightarrow> date) \<Rightarrow> (int \<Rightarrow> int) \<Rightarrow> int \<Rightarrow> reservation list \<Rightarrow> period \<Rightarrow> reservation list" where
  "filteredReservationsA Date_parse localMidnight now rs selectedPeriod =
     (let rng = getDateRange localMidnight now selectedPeriod
      in sort_key (sortKey Date_parse) (filter (inRange Date_parse rng) rs))"

definition totalReservations ::
  "(string \<Rightarrow> date) \<Rightarrow> (int \<Rightarrow> int) \<Rightarrow> int \<Rightarrow> reservation list \<Rightarrow> period \<Rightarrow> nat" where
  "totalReservations Date_parse localMidnight now rs selectedPeriod =
     length (filteredReservationsA Date_parse localMidnight now rs selectedPeriod)"


section \<open>The inbound email function\<close>

text \<open>
  \<open>interface InboundEmailPayload\<close>. A member that is missing is \<open>None\<close>. The operator
  \<open>||\<close> takes its right operand when the left one is missing or the empty string.
\<close>

record attachment =
  a_filename :: "string option"
  a_content_type :: "string option"
  a_size :: "int option"
  a_url :: "string option"

record payload =
  p_sender :: "string option"
  p_from :: "string option"
  p_recipient :: "string option"
  p_subject :: "string option"
  p_body_plain :: "string option"
  p_body_html :: "string option"
  p_stripped_text :: "string option"
  p_stripped_html :: "string option"
  p_message_headers :: "string option"
  p_Message_Id :: "string option"
  p_timestamp :: "string option"
  p_attachments :: "attachment list option"

definition truthy :: "string option \<Rightarrow> bool" where
  "truthy v = (case v of None \<Rightarrow> False | Some s \<Rightarrow> s \<noteq> [])"

definition orElse :: "string option \<Rightarrow> string \<Rightarrow> string" where
  "orElse v d = (case v of None \<Rightarrow> d | Some s \<Rightarrow> if s = [] then d else s)"

text \<open>String concatenation turns a missing operand into the text \<open>undefined\<close>.\<close>

definition toStr :: "string option \<Rightarrow> string" where
  "toStr v = (case v of None \<Rightarrow> ''undefined'' | Some s \<Rightarrow> s)"

text \<open>The rows of the two tables, as the function writes them.\<close>

record email_row =
  message_id :: string
  from_address :: string
  from_name :: string
  to_addresses :: "string list"
  subject :: string
  body_text :: string
  body_html :: string
  headers :: "string option"
  is_read :: bool
  is_archived :: bool
  direction :: string
  received_at :: int

record attachment_row =
  email_id :: string
  filename :: string
  content_type :: string
  size_bytes :: int
  storage_path :: string

text \<open>
  What lies outside the function is a parameter: the environment variables, the clock
  (read once for the message identifier and once for the time of receipt), \<open>parseInt\<close>
  and \<open>JSON.parse\<close> (\<open>None\<close>: \<open>NaN\<close>, respectively a syntax error), and the answers of
  the persistence layer. An insert of an email answers with an error message or with
  the id of the stored row. An insert of an attachment, the \<open>n\<close>-th of the request, is
  stored, answers with an error, or is rejected.
\<close>

record runtime =
  SUPABASE_URL :: "string option"
  SUPABASE_SERVICE_ROLE_KEY :: "string option"
  Date_now :: int
  new_Date :: int
  parseInt :: "string \<Rightarrow> int option"
  JSON_parse :: "string \<Rightarrow> string option"

datatype att_outcome = AttStored | AttError string | AttRejected string

record email_db =
  insert_email :: "email_row \<Rightarrow> string + string"
  insert_attachment :: "nat \<Rightarrow> attachment_row \<Rightarrow> att_outcome"

text \<open>
  The request: its method, its \<open>content-type\<close> header, what \<open>req.json()\<close> settles to
  and what \<open>req.formData()\<close> settles to (\<open>Inl\<close>: rejected with that message).
\<close>

datatype form_value = FString string | FFile

record request =
  req_method :: string
  content_type_header :: "string option"
  json :: "string + payload"
  formData :: "string + (string \<times> form_value) list"

datatype log_entry = Log string | Warn string | Error string

record world =
  emails :: "email_row list"
  email_attachments :: "attachment_row list"
  w_console :: "log_entry list"

datatype resp_body = NoBody | SuccessBody string | FailureBody string

record response =
  status :: nat
  body :: resp_body

definition say :: "log_entry \<Rightarrow> world \<Rightarrow> world" where
  "say l w = w\<lparr>w_console := w_console w @ [l]\<rparr>"

text \<open>
  The form branch copies every entry whose value is a string into an empty object, so
  a later entry of the same name wins and \<open>attachments\<close> is never an array.
\<close>

definition formField :: "(string \<times> form_value) list \<Rightarrow> string \<Rightarrow> string option" where
  "formField entries k =
     map_of (rev (concat (map (\<lambda>(key, value). case value of FString s \<Rightarrow> [(key, s)] | FFile \<Rightarrow> [])
       entries))) k"

definition payloadOfForm :: "(string \<times> form_value) list \<Rightarrow> payload" where
  "payloadOfForm entries = \<lparr>
     p_sender = formField entries ''sender'',
     p_from = formField entries ''from'',
     p_recipient = formField entries ''recipient'',
     p_subject = formField entries ''subject'',
     p_body_plain = formField entries ''body-plain'',
     p_body_html = formField entries ''body-html'',
     p_stripped_text = formField entries ''stripped-text'',
     p_stripped_html = formField entries ''stripped-html'',
     p_message_headers = formField entries ''message-headers'',
     p_Message_Id = formField entries ''Message-Id'',
     p_timestamp = formField entries ''timestamp'',
     p_attachments = None \<rparr>"

definition readBody :: "request \<Rightarrow> string + payload" where
  "readBody req =
     (let contentType = orElse (content_type_header req) [] in
      if includes_s contentType ''application/json'' then json req
      else if includes_s contentType ''multipart/form-data'' \<or>
              includes_s contentType ''application/x-www-form-urlencoded''
      then (case formData req of Inl e \<Rightarrow> Inl e | Inr entries \<Rightarrow> Inr (payloadOfForm entries))
      else Inl ''Unsupported content type'')"

definition messageId :: "runtime \<Rightarrow> payload \<Rightarrow> string" where
  "messageId rt emailData =
     orElse (p_Message_Id emailData)
       (toStr (p_sender emailData) @ ''-'' @ numberToString (Date_now rt))"

definition fromAddress :: "payload \<Rightarrow> string" where
  "fromAddress emailData =
     orElse (p_sender emailData) (orElse (p_from emailData) ''unknown@sender.com'')"

definition toAddresses :: "payload \<Rightarrow> string list" where
  "toAddresses emailData =
     (if truthy (p_recipient emailData) then [toStr (p_recipient emailData)] else [])"

definition parseHeaders :: "runtime \<Rightarrow> payload \<Rightarrow> world \<Rightarrow> string option \<times> world" where
  "parseHeaders rt emailData w =
     (if truthy (p_message_headers emailData)
      then (case JSON_parse rt (toStr (p_message_headers emailData)) of
              None \<Rightarrow> (None, say (Warn ''Could not parse message headers'') w)
            | Some h \<Rightarrow> (Some h, w))
      else (None, w))"

text \<open>
  \<open>toISOString\<close> throws a \<open>RangeError\<close> on an invalid date: one built from \<open>NaN\<close> or
  from a time value beyond 8.64e15 milliseconds either side of the epoch.
\<close>

definition receivedAt :: "runtime \<Rightarrow> payload \<Rightarrow> string + int" where
  "receivedAt rt emailData =
     (if truthy (p_timestamp emailData)
      then (case parseInt rt (toStr (p_timestamp emailData)) of
              None \<Rightarrow> Inl ''Invalid time value''
            | Some n \<Rightarrow>
                if \<bar>n * 1000\<bar> \<le> 8640000000000000 then Inr (n * 1000)
                else Inl ''Invalid time value'')
      else Inr (new_Date rt))"

definition emailRow :: "runtime \<Rightarrow> payload \<Rightarrow> string option \<Rightarrow> int \<Rightarrow> email_row" where
  "emailRow rt emailData hdrs received = \<lparr>
     message_id = messageId rt emailData,
     from_address = fromAddress emailData,
     from_name = orElse (p_from emailData) (fromAddress emailData),
     to_addresses = toAddresses emailData,
     subject = orElse (p_subject emailData) ''(No Subject)'',
     body_text = orElse (p_stripped_text emailData) (orElse (p_body_plain emailData) []),
     body_html = orElse (p_stripped_html emailData) (orElse (p_body_html emailData) []),
     headers = hdrs,
     is_read = False,
     is_archived = False,
     direction = ''inbound'',
     received_at = received \<rparr>"

definition attachmentRow :: "string \<Rightarrow> attachment \<Rightarrow> attachment_row" where
  "attachmentRow eid a = \<lparr>
     email_id = eid,
     filename = orElse (a_filename a) ''unknown'',
     content_type = orElse (a_content_type a) ''application/octet-stream'',
     size_bytes = (case a_size a of None \<Rightarrow> 0 | Some n \<Rightarrow> n),
     storage_path = orElse (a_url a) [] \<rparr>"

text \<open>The body of the loop over the attachments, and the loop.\<close>

definition processAttachment :: "email_db \<Rightarrow> string \<Rightarrow> nat \<Rightarrow> attachment \<Rightarrow> world \<Rightarrow> world" where
  "processAttachment db eid n a w =
     (case insert_attachment db n (attachmentRow eid a) of
        AttStored \<Rightarrow> w\<lparr>email_attachments := email_attachments w @ [attachmentRow eid a]\<rparr>
      | AttError e \<Rightarrow> say (Error ''Error inserting attachment:'') w
      | AttRejected e \<Rightarrow> say (Error ''Error processing attachment:'') w)"

fun processAttachments :: "email_db \<Rightarrow> string \<Rightarrow> nat \<Rightarrow> attachment list \<Rightarrow> world \<Rightarrow> world" where
  "processAttachments db eid n [] w = w"
| "processAttachments db eid n (a # rest) w =
     processAttachments db eid (Suc n) rest (processAttachment db eid n a w)"

text \<open>
  The \<open>try\<close> block: \<open>Inl msg\<close> when it throws an error with message \<open>msg\<close>, \<open>Inr id\<close>
  when it reaches the final \<open>return\<close> with the id of the stored email.
\<close>

definition tryBlock :: "runtime \<Rightarrow> email_db \<Rightarrow> request \<Rightarrow> world \<Rightarrow> (string + string) \<times> world" where
  "tryBlock rt db req w =
     (if \<not> truthy (SUPABASE_URL rt) \<or> \<not> truthy (SUPABASE_SERVICE_ROLE_KEY rt)
      then (Inl ''Missing Supabase configuration'', w)
      else case readBody req of
        Inl e \<Rightarrow> (Inl e, w)
      | Inr emailData \<Rightarrow>
          (let w1 = say (Log ''Received email data:'') w;
               (hdrs, w2) = parseHeaders rt emailData w1
           in case receivedAt rt emailData of
                Inl e \<Rightarrow> (Inl e, w2)
              | Inr received \<Rightarrow>
                  (let row = emailRow rt emailData hdrs received
                   in case insert_email db row of
                        Inl e \<Rightarrow> (Inl e, say (Error ''Error inserting email:'') w2)
                      | Inr eid \<Rightarrow>
                          (let w3 = say (Log ''Email inserted successfully:'')
                                      (w2\<lparr>emails := emails w2 @ [row]\<rparr>);
                               w4 = (case p_attachments emailData of
                                       None \<Rightarrow> w3
                                     | Some atts \<Rightarrow>
                                         if length atts > 0
                                         then processAttachments db eid 0 atts
                                                (say (Log ''Processing attachments'') w3)
                                         else w3)
                           in (Inr eid, w4)))))"

definition handler :: "runtime \<Rightarrow> email_db \<Rightarrow> request \<Rightarrow> world \<Rightarrow> response \<times> world" where
  "handler rt db req w =
     (if req_method req = ''OPTIONS'' then (\<lparr>status = 200, body = NoBody\<rparr>, w)
      else case tryBlock rt db req w of
        (Inl msg, w1) \<Rightarrow>
          (\<lparr>status = 500, body = FailureBody (orElse (Some msg) ''Unknown error'')\<rparr>,
           say (Error ''Error processing email webhook:'') w1)
      | (Inr eid, w1) \<Rightarrow> (\<lparr>status = 200, body = SuccessBody eid\<rparr>, w1))"


section \<open>Notions used to state the properties\<close>





text \<open>
  The ranges that \<open>getDateRange\<close> computes, read as half-open intervals of time
  values: \<open>periodStart\<close> is included and \<open>periodEnd\<close> is excluded, and both are a whole
  number of 24-hour days away from \<open>today\<close>, local midnight of the current day.
\<close>

definition periodStart :: "int \<Rightarrow> period \<Rightarrow> int" where
  "periodStart today p =
     today - (case p of Today \<Rightarrow> 0 | Yesterday \<Rightarrow> 1 | Week \<Rightarrow> 7 | Month \<Rightarrow> 30) * 86400000"

definition periodEnd :: "int \<Rightarrow> period \<Rightarrow> int" where
  "periodEnd today p = (case p of Yesterday \<Rightarrow> today | _ \<Rightarrow> today + 86400000)"

definition createdWithin :: "(string \<Rightarrow> date) \<Rightarrow> int \<Rightarrow> int \<Rightarrow> reservation \<Rightarrow> bool" where
  "createdWithin Date_parse lo hi r =
     (case newDate Date_parse (createdAt r) of None \<Rightarrow> False | Some t \<Rightarrow> lo \<le> t \<and> t < hi)"

text \<open>
  The wording of the specification: the day ranges of the periods with every boundary at
  a local wall-clock midnight. \<open>localMidnight t\<close> is the start of the local day that holds
  \<open>t\<close>. A local day lasts between 23 and 25 hours, so the instant 12 hours before a local
  midnight lies in the day before, and the instant 36 hours after it lies in the day
  after. The range of today runs from the midnight of today to the midnight of tomorrow,
  the range of yesterday from the midnight of yesterday to the midnight of today, and the
  ranges of the last 7 and the last 30 days from the midnight 7 and 30 local days ago to
  the midnight of tomorrow.
\<close>

definition dayBefore :: "(int \<Rightarrow> int) \<Rightarrow> int \<Rightarrow> int" where
  "dayBefore localMidnight m = localMidnight (m - 12 * 60 * 60 * 1000)"

definition dayAfter :: "(int \<Rightarrow> int) \<Rightarrow> int \<Rightarrow> int" where
  "dayAfter localMidnight m = localMidnight (m + 36 * 60 * 60 * 1000)"

fun daysBefore :: "(int \<Rightarrow> int) \<Rightarrow> nat \<Rightarrow> int \<Rightarrow> int" where
  "daysBefore localMidnight 0 m = m"
| "daysBefore localMidnight (Suc k) m = daysBefore localMidnight k (dayBefore localMidnight m)"

definition periodDays :: "period \<Rightarrow> nat" where
  "periodDays p = (case p of Today \<Rightarrow> 0 | Yesterday \<Rightarrow> 1 | Week \<Rightarrow> 7 | Month \<Rightarrow> 30)"

definition calendarStart :: "(int \<Rightarrow> int) \<Rightarrow> int \<Rightarrow> period \<Rightarrow> int" where
  "calendarStart localMidnight today p = daysBefore localMidnight (periodDays p) today"

definition calendarEnd :: "(int \<Rightarrow> int) \<Rightarrow> int \<Rightarrow> period \<Rightarrow> int" where
  "calendarEnd localMidnight today p =
     (case p of Yesterday \<Rightarrow> today | _ \<Rightarrow> dayAfter localMidnight today)"

text \<open>
  Local midnight in a time zone whose local time is always \<open>off\<close> milliseconds ahead of
  UTC: every local day lasts 24 hours.
\<close>

definition fixedOffsetMidnight :: "int \<Rightarrow> int \<Rightarrow> int" where
  "fixedOffsetMidnight off t = t - (t + off) mod 86400000"

text \<open>
  Accounting for the attachment loop: the lines written with \<open>console.error\<close>, the
  attachments of a payload (none when the member is missing), and whether the insert of
  the \<open>n\<close>-th attachment is stored.
\<close>

fun isError :: "log_entry \<Rightarrow> bool" where
  "isError (Error m) = True"
| "isError _ = False"

definition attachmentsOf :: "payload \<Rightarrow> attachment list" where
  "attachmentsOf emailData = (case p_attachments emailData of None \<Rightarrow> [] | Some atts \<Rightarrow> atts)"

definition stored :: "email_db \<Rightarrow> string \<Rightarrow> nat \<times> attachment \<Rightarrow> bool" where
  "stored db eid na = (insert_attachment db (fst na) (attachmentRow eid (snd na)) = AttStored)"

section \<open>Example inputs\<close>

text \<open>
  Concrete values at which the theorems below are instantiated. \<open>sampleParse\<close> gives
  the time values of the date strings that occur in them. \<open>amsterdamMidnight\<close> is local
  midnight in the time zone Europe/Amsterdam for the instants between 30 March 2025 and
  29 March 2026: local time is two hours ahead of UTC until 26 October 2025, 01:00 UTC,
  and one hour ahead from then on, so the local day of 26 October lasts 25 hours.
\<close>

definition sampleParse :: "string \<Rightarrow> date" where
  "sampleParse s = map_of
     [(''2025-10-01'', 1759276800000),
      (''2025-10-02'', 1759363200000),
      (''2025-10-03'', 1759449600000),
      (''2025-10-01T23:59:59.999Z'', 1759363199999),
      (''2025-10-02T09:30:00.000Z'', 1759397400000),
      (''2025-10-26T22:30:00.000Z'', 1761517800000)] s"

definition amsterdamOffset :: "int \<Rightarrow> int" where
  "amsterdamOffset t = (if t < 1761440400000 then 7200000 else 3600000)"

definition amsterdamMidnight :: "int \<Rightarrow> int" where
  "amsterdamMidnight t =
     (let local = t + amsterdamOffset t;
          dayStart = local - local mod 86400000
      in dayStart - amsterdamOffset (dayStart - amsterdamOffset t))"

definition resA :: reservation where
  "resA = \<lparr> idR = ''r-1'', reservationNumber = 1042, firstName = ''Ada'',
     lastName = ''Lovelace'', phone = ''06-EXT-12'', appointmentDate = ''2025-10-02'',
     appointmentTime = ''14:00'', totalPrice = 250, depositPaid = 50, isPaid = False,
     depositPaidStatus = True, restPaidStatus = False, designImages = None, notesR = None,
     artistId = None, createdAt = Some ''2025-10-02T09:30:00.000Z'' \<rparr>"

definition resB :: reservation where
  "resB = \<lparr> idR = ''r-2'', reservationNumber = 1041, firstName = ''Grace'',
     lastName = ''Hopper'', phone = ''0611223344'', appointmentDate = ''2025-10-03'',
     appointmentTime = ''10:00'', totalPrice = 120, depositPaid = 20, isPaid = False,
     depositPaidStatus = True, restPaidStatus = True, designImages = None,
     notesR = Some ''sleeve'', artistId = None, createdAt = Some ''2025-10-01T23:59:59.999Z'' \<rparr>"


definition resLate :: reservation where
  "resLate = \<lparr> idR = ''r-5'', reservationNumber = 1044, firstName = ''Anne'',
     lastName = ''Frank'', phone = ''0612121212'', appointmentDate = ''2025-10-03'',
     appointmentTime = ''11:00'', totalPrice = 80, depositPaid = 0, isPaid = False,
     depositPaidStatus = False, restPaidStatus = False, designImages = None, notesR = None,
     artistId = None, createdAt = Some ''2025-10-26T22:30:00.000Z'' \<rparr>"


definition stateAB :: data_state where
  "stateAB = \<lparr> reservations = [resA, resB], console = [], sent = [] \<rparr>"

definition dbOk :: backend where
  "dbOk = \<lparr> insert_row = (\<lambda>r. Inr (r\<lparr>idR := ''r-3'', createdAt := Some ''2025-10-03''\<rparr>)),
     update_rows = (\<lambda>i u. None), delete_rows = (\<lambda>i. None) \<rparr>"

definition dbDown :: backend where
  "dbDown = \<lparr> insert_row = (\<lambda>r. Inl ''connection refused''),
     update_rows = (\<lambda>i u. Some ''connection refused''),
     delete_rows = (\<lambda>i. Some ''connection refused'') \<rparr>"

definition renameUpdate :: updates where
  "renameUpdate = noUpdates\<lparr>u_firstName := Some ''Augusta'', u_artistId := Some None\<rparr>"

definition rtA :: runtime where
  "rtA = \<lparr> SUPABASE_URL = Some ''https://db.example'', SUPABASE_SERVICE_ROLE_KEY = Some ''key'',
     Date_now = 1759397400000, new_Date = 1759397400000,
     parseInt = (\<lambda>s. None), JSON_parse = (\<lambda>s. None) \<rparr>"

definition rtB :: runtime where
  "rtB = rtA\<lparr>Date_now := 1759397400001, new_Date := 1759397400001\<rparr>"

definition noPayload :: payload where
  "noPayload = \<lparr> p_sender = None, p_from = None, p_recipient = None, p_subject = None,
     p_body_plain = None, p_body_html = None, p_stripped_text = None, p_stripped_html = None,
     p_message_headers = None, p_Message_Id = None, p_timestamp = None, p_attachments = None \<rparr>"

definition payloadNoId :: payload where
  "payloadNoId = noPayload\<lparr>p_sender := Some ''a@b.com''\<rparr>"

definition payloadWithId :: payload where
  "payloadWithId = noPayload\<lparr>p_sender := Some ''a@b.com'', p_Message_Id := Some ''<m1@mail>''\<rparr>"

definition payloadEmptyId :: payload where
  "payloadEmptyId = noPayload\<lparr>p_sender := Some ''a@b.com'', p_Message_Id := Some []\<rparr>"

definition twoAttachments :: "attachment list" where
  "twoAttachments =
     [\<lparr> a_filename = Some ''a.png'', a_content_type = Some ''image/png'', a_size = Some 10,
        a_url = Some ''https://files.example/a.png'' \<rparr>,
      \<lparr> a_filename = None, a_content_type = None, a_size = None, a_url = None \<rparr>]"

definition payloadAtt :: payload where
  "payloadAtt = noPayload\<lparr>p_attachments := Some twoAttachments\<rparr>"

definition reqAtt :: request where
  "reqAtt = \<lparr> req_method = ''POST'', content_type_header = Some ''application/json; charset=utf-8'',
     json = Inr payloadAtt, formData = Inl ''not a form'' \<rparr>"

definition reqBare :: request where
  "reqBare = \<lparr> req_method = ''POST'', content_type_header = Some ''application/json'',
     json = Inr noPayload, formData = Inl ''not a form'' \<rparr>"

definition dbMail :: email_db where
  "dbMail = \<lparr> insert_email = (\<lambda>row. Inr ''e-1''), insert_attachment = (\<lambda>n row. AttStored) \<rparr>"

definition failingInserts :: "nat \<Rightarrow> attachment_row \<Rightarrow> att_outcome" where
  "failingInserts n row = (if n = 0 then AttError ''violates check constraint'' else AttRejected ''fetch failed'')"

definition emptyWorld :: world where
  "emptyWorld = \<lparr> emails = [], email_attachments = [], w_console = [] \<rparr>"

section \<open>Strings and decimal numerals\<close>


lemma of_char_digitChar: "d < 10 \<Longrightarrow> (of_char (digitChar d) :: nat) = 48 + d"
  by (simp add: digitChar_def)















text \<open>
  The decimal numeral of an integer determines the integer.
\<close>

lemma digitsOf_nonempty: "digitsOf n \<noteq> []"
  by (subst digitsOf.simps) simp

lemma digitsOf_last: "last (digitsOf n) = digitChar (n mod 10)"
  by (subst digitsOf.simps) simp

lemma digitsOf_butlast:
  "butlast (digitsOf n) = (if n < 10 then [] else digitsOf (n div 10))"
  by (subst digitsOf.simps) simp

lemma digitChar_inj: "a < 10 \<Longrightarrow> b < 10 \<Longrightarrow> digitChar a = digitChar b \<Longrightarrow> a = b"
proof -
  assume a: "a < 10" and b: "b < 10" and e: "digitChar a = digitChar b"
  from e have "(of_char (digitChar a) :: nat) = of_char (digitChar b)" by simp
  with a b show "a = b" by (simp add: of_char_digitChar)
qed

lemma digitsOf_inj: "digitsOf n = digitsOf m \<Longrightarrow> n = m"
proof (induction n arbitrary: m rule: less_induct)
  case (less n)
  from less.prems have l: "last (digitsOf n) = last (digitsOf m)"
    and b: "butlast (digitsOf n) = butlast (digitsOf m)" by simp_all
  from l have m10: "n mod 10 = m mod 10"
    by (auto simp: digitsOf_last intro: digitChar_inj)
  show ?case
  proof (cases "n < 10")
    case True
    with b have "m < 10"
      using digitsOf_nonempty [of "m div 10"]
      by (auto simp: digitsOf_butlast split: if_splits)
    with True m10 show ?thesis by simp
  next
    case False
    with b have m: "\<not> m < 10" and d: "digitsOf (n div 10) = digitsOf (m div 10)"
      using digitsOf_nonempty [of "n div 10"]
      by (auto simp: digitsOf_butlast split: if_splits)
    from False have "n div 10 < n" by simp
    from less.IH [OF this d] have "n div 10 = m div 10" .
    with m10 show ?thesis
      by (metis div_mult_mod_eq)
  qed
qed

lemma digitsOf_hd_not_minus: "hd (digitsOf n) \<noteq> CHR ''-''"
proof -
  have "hd (digitsOf n) \<in> set (digitsOf n)"
    by (simp add: digitsOf_nonempty)
  moreover have "\<forall>c \<in> set (digitsOf n). (of_char c :: nat) \<ge> 48"
  proof (induction n rule: digitsOf.induct)
    case (1 n)
    show ?case
    proof (cases "n < 10")
      case True
      then show ?thesis by (subst digitsOf.simps) (simp add: of_char_digitChar)
    next
      case False
      then show ?thesis
        using "1.IH" by (subst digitsOf.simps) (auto simp: of_char_digitChar)
    qed
  qed
  ultimately have "(of_char (hd (digitsOf n)) :: nat) \<ge> 48" by blast
  then show ?thesis by auto
qed

lemma numberToString_inj: "numberToString a = numberToString b \<Longrightarrow> a = b"
proof -
  assume e: "numberToString a = numberToString b"
  have neg: "CHR ''-'' # digitsOf x \<noteq> digitsOf y" for x y
  proof
    assume "CHR ''-'' # digitsOf x = digitsOf y"
    then have "hd (digitsOf y) = CHR ''-''" by (metis list.sel(1))
    then show False using digitsOf_hd_not_minus by blast
  qed
  show "a = b"
  proof (cases "a < 0"; cases "b < 0")
    assume "a < 0" "b < 0"
    with e have "nat (- a) = nat (- b)"
      by (auto simp: numberToString_def dest: digitsOf_inj)
    with \<open>a < 0\<close> \<open>b < 0\<close> show ?thesis by simp
  next
    assume "a < 0" "\<not> b < 0"
    with e neg show ?thesis by (auto simp: numberToString_def)
  next
    assume "\<not> a < 0" "b < 0"
    with e neg [of "nat (- b)" "nat a"] show ?thesis by (auto simp: numberToString_def)
  next
    assume "\<not> a < 0" "\<not> b < 0"
    with e have "nat a = nat b"
      by (auto simp: numberToString_def dest: digitsOf_inj)
    with \<open>\<not> a < 0\<close> \<open>\<not> b < 0\<close> show ?thesis by simp
  qed
qed

lemma digitChar_values:
  "digitChar 0 = CHR ''0''" "digitChar (Suc 0) = CHR ''1''" "digitChar 2 = CHR ''2''"
  "digitChar 3 = CHR ''3''" "digitChar 4 = CHR ''4''" "digitChar 5 = CHR ''5''"
  "digitChar 6 = CHR ''6''" "digitChar 7 = CHR ''7''" "digitChar 8 = CHR ''8''"
  "digitChar 9 = CHR ''9''"
  by code_simp+

section \<open>The text search of the reservation list\<close>




section \<open>The analytics periods\<close>

lemma inRange_half_open:
  "inRange Date_parse (getDateRange localMidnight now p) r =
     createdWithin Date_parse (periodStart (localMidnight now) p) (periodEnd (localMidnight now) p) r"
  by (cases p)
     (auto simp: inRange_def getDateRange_def createdWithin_def periodStart_def periodEnd_def
        date_ge_def date_le_def Let_def split: option.splits)

lemma inRange_appointmentDate:
  "inRange Date_parse rng (appointmentDate_update f r) = inRange Date_parse rng r"
  by (simp add: inRange_def)

text \<open>
  Where every local day lasts 24 hours, the ranges of the code are the ranges of the
  specification.
\<close>

lemma fixed_is_midnight: "(fixedOffsetMidnight off t + off) mod 86400000 = 0"
proof -
  have "fixedOffsetMidnight off t + off = (t + off) - (t + off) mod 86400000"
    by (simp add: fixedOffsetMidnight_def)
  then show ?thesis
    by (simp add: minus_mod_eq_mult_div)
qed

lemma fixed_dayBefore:
  assumes "(m + off) mod 86400000 = 0"
  shows "dayBefore (fixedOffsetMidnight off) m = m - 86400000"
proof -
  have "(m - 43200000 + off) mod 86400000 =
        ((m + off) mod 86400000 - 43200000 mod 86400000) mod 86400000"
    by (simp only: mod_diff_eq) (simp add: algebra_simps)
  then have "(m - 43200000 + off) mod 86400000 = 43200000"
    by (simp add: assms)
  then show ?thesis
    by (simp add: dayBefore_def fixedOffsetMidnight_def)
qed

lemma fixed_dayAfter:
  assumes "(m + off) mod 86400000 = 0"
  shows "dayAfter (fixedOffsetMidnight off) m = m + 86400000"
proof -
  have "(m + 129600000 + off) mod 86400000 =
        ((m + off) mod 86400000 + 129600000 mod 86400000) mod 86400000"
    by (simp only: mod_add_eq) (simp add: algebra_simps)
  then have "(m + 129600000 + off) mod 86400000 = 43200000"
    by (simp add: assms)
  then show ?thesis
    by (simp add: dayAfter_def fixedOffsetMidnight_def)
qed

lemma fixed_daysBefore:
  "(m + off) mod 86400000 = 0 \<Longrightarrow>
   daysBefore (fixedOffsetMidnight off) k m = m - int k * 86400000"
proof (induction k arbitrary: m)
  case 0
  show ?case by simp
next
  case (Suc k)
  have "(m - 86400000 + off) mod 86400000 =
        ((m + off) mod 86400000 - 86400000 mod 86400000) mod 86400000"
    by (simp only: mod_diff_eq) (simp add: algebra_simps)
  then have "(m - 86400000 + off) mod 86400000 = 0"
    by (simp add: Suc.prems)
  from Suc.IH [OF this] show ?case
    by (simp add: fixed_dayBefore [OF Suc.prems] algebra_simps)
qed

lemma fixed_calendar:
  "calendarStart (fixedOffsetMidnight off) (fixedOffsetMidnight off now) p =
     periodStart (fixedOffsetMidnight off now) p"
  "calendarEnd (fixedOffsetMidnight off) (fixedOffsetMidnight off now) p =
     periodEnd (fixedOffsetMidnight off now) p"
proof -
  note m = fixed_is_midnight [of off now]
  show "calendarStart (fixedOffsetMidnight off) (fixedOffsetMidnight off now) p =
     periodStart (fixedOffsetMidnight off now) p"
    unfolding calendarStart_def fixed_daysBefore [OF m]
    by (cases p) (simp_all add: periodStart_def periodDays_def)
  show "calendarEnd (fixedOffsetMidnight off) (fixedOffsetMidnight off now) p =
     periodEnd (fixedOffsetMidnight off now) p"
    by (cases p) (simp_all add: calendarEnd_def periodEnd_def fixed_dayAfter [OF m])
qed

text \<open>
  Claim C2, as the code has it. A reservation of the collection is counted in the
  selected period exactly when its creation timestamp is a valid date whose time value
  lies in the half-open interval from \<open>periodStart\<close> to \<open>periodEnd\<close>: from local midnight
  of today (for yesterday, the last 7 days and the last 30 days: 1, 7 and 30 times 24
  hours earlier) up to, and excluding, 24 hours after local midnight of today (for
  yesterday: local midnight of today). The number of reservations shown is the number of
  those, and it does not change when the appointment dates of the collection are replaced
  by any others. In a time zone at a fixed offset from UTC these bounds are the local
  wall-clock midnights that bound the days of the period.
\<close>

theorem analytics_period_by_creation:
  "(r \<in> set (filteredReservationsA Date_parse localMidnight now rs p) \<longleftrightarrow>
      r \<in> set rs \<and>
      createdWithin Date_parse (periodStart (localMidnight now) p)
        (periodEnd (localMidnight now) p) r) \<and>
   totalReservations Date_parse localMidnight now rs p =
     length (filter (createdWithin Date_parse (periodStart (localMidnight now) p)
        (periodEnd (localMidnight now) p)) rs) \<and>
   totalReservations Date_parse localMidnight now (map (appointmentDate_update f) rs) p =
     totalReservations Date_parse localMidnight now rs p \<and>
   (r \<in> set (filteredReservationsA Date_parse (fixedOffsetMidnight off) now rs p) \<longleftrightarrow>
      r \<in> set rs \<and>
      createdWithin Date_parse
        (calendarStart (fixedOffsetMidnight off) (fixedOffsetMidnight off now) p)
        (calendarEnd (fixedOffsetMidnight off) (fixedOffsetMidnight off now) p) r)"
proof -
  let ?P = "inRange Date_parse (getDateRange localMidnight now p)"
  have eq: "?P = createdWithin Date_parse (periodStart (localMidnight now) p)
        (periodEnd (localMidnight now) p)"
    by (rule ext) (rule inRange_half_open)
  have m: "r \<in> set (filteredReservationsA Date_parse localMidnight now rs p) \<longleftrightarrow>
      r \<in> set rs \<and> ?P r"
    by (auto simp: filteredReservationsA_def)
  have c: "totalReservations Date_parse localMidnight now xs p = length (filter ?P xs)" for xs
    by (simp add: totalReservations_def filteredReservationsA_def)
  have "filter ?P (map (appointmentDate_update f) rs) =
        map (appointmentDate_update f) (filter ?P rs)"
    by (simp add: filter_map comp_def inRange_appointmentDate)
  then have i: "length (filter ?P (map (appointmentDate_update f) rs)) = length (filter ?P rs)"
    by simp
  have g: "r \<in> set (filteredReservationsA Date_parse (fixedOffsetMidnight off) now rs p) \<longleftrightarrow>
      r \<in> set rs \<and>
      createdWithin Date_parse
        (calendarStart (fixedOffsetMidnight off) (fixedOffsetMidnight off now) p)
        (calendarEnd (fixedOffsetMidnight off) (fixedOffsetMidnight off now) p) r"
    unfolding fixed_calendar
    by (auto simp: filteredReservationsA_def inRange_half_open)
  show ?thesis
    using m c i g unfolding eq by simp
qed

text \<open>
  An instance, at noon of 2 October 2025 in UTC: the reservation created at 09:30 that
  day is the one of today, the one created one millisecond before midnight is the one of
  yesterday, and both belong to the last 7 days.
\<close>

theorem analytics_period_by_creation_witness:
  "totalReservations sampleParse (fixedOffsetMidnight 0) 1759406400000 [resA, resB] Today = 1 \<and>
   totalReservations sampleParse (fixedOffsetMidnight 0) 1759406400000 [resA, resB] Yesterday = 1 \<and>
   totalReservations sampleParse (fixedOffsetMidnight 0) 1759406400000 [resA, resB] Week = 2 \<and>
   resA \<in> set (filteredReservationsA sampleParse (fixedOffsetMidnight 0) 1759406400000
             [resA, resB] Today) \<and>
   resB \<notin> set (filteredReservationsA sampleParse (fixedOffsetMidnight 0) 1759406400000
             [resA, resB] Today)"
proof -
  have a: "length (filter (createdWithin sampleParse
              (periodStart (fixedOffsetMidnight 0 1759406400000) Today)
              (periodEnd (fixedOffsetMidnight 0 1759406400000) Today)) [resA, resB]) = 1"
    by code_simp
  have b: "length (filter (createdWithin sampleParse
              (periodStart (fixedOffsetMidnight 0 1759406400000) Yesterday)
              (periodEnd (fixedOffsetMidnight 0 1759406400000) Yesterday)) [resA, resB]) = 1"
    by code_simp
  have c: "length (filter (createdWithin sampleParse
              (periodStart (fixedOffsetMidnight 0 1759406400000) Week)
              (periodEnd (fixedOffsetMidnight 0 1759406400000) Week)) [resA, resB]) = 2"
    by code_simp
  have d: "createdWithin sampleParse
              (calendarStart (fixedOffsetMidnight 0) (fixedOffsetMidnight 0 1759406400000) Today)
              (calendarEnd (fixedOffsetMidnight 0) (fixedOffsetMidnight 0 1759406400000) Today) resA"
    by code_simp
  have e: "\<not> createdWithin sampleParse
              (calendarStart (fixedOffsetMidnight 0) (fixedOffsetMidnight 0 1759406400000) Today)
              (calendarEnd (fixedOffsetMidnight 0) (fixedOffsetMidnight 0 1759406400000) Today) resB"
    by code_simp
  note t = analytics_period_by_creation
    [of _ sampleParse "fixedOffsetMidnight 0" 1759406400000 "[resA, resB]" _ _ 0]
  note count = t [THEN conjunct2, THEN conjunct1]
  note calendar = t [THEN conjunct2, THEN conjunct2, THEN conjunct2]
  from calendar [of resA Today] d
  have f: "resA \<in> set (filteredReservationsA sampleParse (fixedOffsetMidnight 0) 1759406400000
             [resA, resB] Today)"
    by simp
  from calendar [of resB Today] e
  have g: "resB \<notin> set (filteredReservationsA sampleParse (fixedOffsetMidnight 0) 1759406400000
             [resA, resB] Today)"
    by simp
  have h: "totalReservations sampleParse (fixedOffsetMidnight 0) 1759406400000 [resA, resB] Today = 1"
    using count [of Today] by (simp only: a)
  have i: "totalReservations sampleParse (fixedOffsetMidnight 0) 1759406400000 [resA, resB] Yesterday = 1"
    using count [of Yesterday] by (simp only: b)
  have j: "totalReservations sampleParse (fixedOffsetMidnight 0) 1759406400000 [resA, resB] Week = 2"
    using count [of Week] by (simp only: c)
  from f g h i j show ?thesis by blast
qed

text \<open>
  Claim C2 as the specification words it fails on a day that does not last 24 hours. In
  Amsterdam, on 26 October 2025 at 23:45 local time, the midnight of today is 25 October,
  22:00 UTC, and the midnight of tomorrow is 26 October, 23:00 UTC. A reservation created
  at 23:30 local time (22:30 UTC) lies between the two local midnights, yet it is not
  counted for today: the range of the code ends 24 hours after the midnight of today, at
  23:00 local time.
\<close>

theorem dst_day_not_counted:
  "amsterdamMidnight 1761518700000 = 1761429600000 \<and>
   calendarEnd amsterdamMidnight (amsterdamMidnight 1761518700000) Today = 1761519600000 \<and>
   createdWithin sampleParse
     (calendarStart amsterdamMidnight (amsterdamMidnight 1761518700000) Today)
     (calendarEnd amsterdamMidnight (amsterdamMidnight 1761518700000) Today) resLate \<and>
   resLate \<notin> set (filteredReservationsA sampleParse amsterdamMidnight 1761518700000
                  [resLate] Today) \<and>
   totalReservations sampleParse amsterdamMidnight 1761518700000 [resLate] Today = 0"
  by code_simp

section \<open>The data context\<close>

text \<open>
  Claim C6. When the insert succeeds, \<open>addReservation\<close> resolves and the local
  collection is the returned row followed by the collection as it was, so the new
  reservation is the first of the list.
\<close>

theorem addReservation_prepends:
  assumes "insert_row db r = Inr data"
  shows "fst (addReservation db r st) = Inr () \<and>
         reservations (snd (addReservation db r st)) = data # reservations st \<and>
         hd (reservations (snd (addReservation db r st))) = data"
  using assms by (simp add: addReservation_def Let_def)

theorem addReservation_prepends_witness:
  "fst (addReservation dbOk resA stateAB) = Inr () \<and>
   hd (reservations (snd (addReservation dbOk resA stateAB))) =
     resA\<lparr>idR := ''r-3'', createdAt := Some ''2025-10-03''\<rparr> \<and>
   reservations (snd (addReservation dbOk resA stateAB)) =
     [resA\<lparr>idR := ''r-3'', createdAt := Some ''2025-10-03''\<rparr>, resA, resB]"
proof -
  have "insert_row dbOk resA = Inr (resA\<lparr>idR := ''r-3'', createdAt := Some ''2025-10-03''\<rparr>)"
    by (simp add: dbOk_def)
  from addReservation_prepends [OF this, of stateAB] show ?thesis
    by (simp add: stateAB_def)
qed

lemma spread_fields:
  "idR (spread res u) = pick (u_id u) (idR res)"
  "reservationNumber (spread res u) = pick (u_reservationNumber u) (reservationNumber res)"
  "firstName (spread res u) = pick (u_firstName u) (firstName res)"
  "lastName (spread res u) = pick (u_lastName u) (lastName res)"
  "phone (spread res u) = pick (u_phone u) (phone res)"
  "appointmentDate (spread res u) = pick (u_appointmentDate u) (appointmentDate res)"
  "appointmentTime (spread res u) = pick (u_appointmentTime u) (appointmentTime res)"
  "totalPrice (spread res u) = pick (u_totalPrice u) (totalPrice res)"
  "depositPaid (spread res u) = pick (u_depositPaid u) (depositPaid res)"
  "isPaid (spread res u) = pick (u_isPaid u) (isPaid res)"
  "depositPaidStatus (spread res u) = pick (u_depositPaidStatus u) (depositPaidStatus res)"
  "restPaidStatus (spread res u) = pick (u_restPaidStatus u) (restPaidStatus res)"
  "designImages (spread res u) = pick (u_designImages u) (designImages res)"
  "notesR (spread res u) = pick (u_notes u) (notesR res)"
  "artistId (spread res u) = pick (u_artistId u) (artistId res)"
  "createdAt (spread res u) = pick (u_createdAt u) (createdAt res)"
  by (simp_all add: spread_def)

lemma updateReservation_ok:
  assumes "update_rows db i u = None"
  shows "fst (updateReservation db i u st) = Inr ()"
    and "reservations (snd (updateReservation db i u st)) =
           map (\<lambda>res. if idR res = i then spread res u else res) (reservations st)"
  using assms by (simp_all add: updateReservation_def Let_def)

text \<open>
  Claim C7. When the update succeeds, \<open>updateReservation\<close> resolves and the local
  collection keeps its length and its order: at every position, a record with another id is
  unchanged, and a record with the given id has, member by member, the supplied value where
  the update supplies one and its old value where it does not.
\<close>

theorem updateReservation_merges:
  assumes "update_rows db i u = None"
  shows "fst (updateReservation db i u st) = Inr () \<and>
         length (reservations (snd (updateReservation db i u st))) = length (reservations st) \<and>
         (\<forall>k < length (reservations st).
            let old = reservations st ! k;
                new = reservations (snd (updateReservation db i u st)) ! k
            in if idR old \<noteq> i then new = old
               else idR new = pick (u_id u) (idR old) \<and>
                    reservationNumber new = pick (u_reservationNumber u) (reservationNumber old) \<and>
                    firstName new = pick (u_firstName u) (firstName old) \<and>
                    lastName new = pick (u_lastName u) (lastName old) \<and>
                    phone new = pick (u_phone u) (phone old) \<and>
                    appointmentDate new = pick (u_appointmentDate u) (appointmentDate old) \<and>
                    appointmentTime new = pick (u_appointmentTime u) (appointmentTime old) \<and>
                    totalPrice new = pick (u_totalPrice u) (totalPrice old) \<and>
                    depositPaid new = pick (u_depositPaid u) (depositPaid old) \<and>
                    isPaid new = pick (u_isPaid u) (isPaid old) \<and>
                    depositPaidStatus new = pick (u_depositPaidStatus u) (depositPaidStatus old) \<and>
                    restPaidStatus new = pick (u_restPaidStatus u) (restPaidStatus old) \<and>
                    designImages new = pick (u_designImages u) (designImages old) \<and>
                    notesR new = pick (u_notes u) (notesR old) \<and>
                    artistId new = pick (u_artistId u) (artistId old) \<and>
                    createdAt new = pick (u_createdAt u) (createdAt old))"
proof -
  note ok = updateReservation_ok [OF assms, of st]
  have "fst (updateReservation db i u st) = Inr ()" by (rule ok(1))
  moreover have "length (reservations (snd (updateReservation db i u st))) = length (reservations st)"
    by (simp add: ok(2))
  moreover have "\<forall>k < length (reservations st).
            let old = reservations st ! k;
                new = reservations (snd (updateReservation db i u st)) ! k
            in if idR old \<noteq> i then new = old
               else idR new = pick (u_id u) (idR old) \<and>
                    reservationNumber new = pick (u_reservationNumber u) (reservationNumber old) \<and>
                    firstName new = pick (u_firstName u) (firstName old) \<and>
                    lastName new = pick (u_lastName u) (lastName old) \<and>
                    phone new = pick (u_phone u) (phone old) \<and>
                    appointmentDate new = pick (u_appointmentDate u) (appointmentDate old) \<and>
                    appointmentTime new = pick (u_appointmentTime u) (appointmentTime old) \<and>
                    totalPrice new = pick (u_totalPrice u) (totalPrice old) \<and>
                    depositPaid new = pick (u_depositPaid u) (depositPaid old) \<and>
                    isPaid new = pick (u_isPaid u) (isPaid old) \<and>
                    depositPaidStatus new = pick (u_depositPaidStatus u) (depositPaidStatus old) \<and>
                    restPaidStatus new = pick (u_restPaidStatus u) (restPaidStatus old) \<and>
                    designImages new = pick (u_designImages u) (designImages old) \<and>
                    notesR new = pick (u_notes u) (notesR old) \<and>
                    artistId new = pick (u_artistId u) (artistId old) \<and>
                    createdAt new = pick (u_createdAt u) (createdAt old)"
    by (simp add: ok(2) Let_def spread_fields)
  ultimately show ?thesis by blast
qed

theorem updateReservation_merges_witness:
  "fst (updateReservation dbOk ''r-1'' renameUpdate stateAB) = Inr () \<and>
   length (reservations (snd (updateReservation dbOk ''r-1'' renameUpdate stateAB))) = 2 \<and>
   firstName (reservations (snd (updateReservation dbOk ''r-1'' renameUpdate stateAB)) ! 0) = ''Augusta'' \<and>
   lastName (reservations (snd (updateReservation dbOk ''r-1'' renameUpdate stateAB)) ! 0) = ''Lovelace'' \<and>
   reservations (snd (updateReservation dbOk ''r-1'' renameUpdate stateAB)) ! 1 = resB"
proof -
  have ok: "update_rows dbOk ''r-1'' renameUpdate = None"
    by (simp add: dbOk_def)
  have ids: "idR resA = ''r-1''" "idR resB \<noteq> ''r-1''" "firstName resA = ''Ada''"
    "lastName resA = ''Lovelace''"
    by (simp_all add: resA_def resB_def)
  have u: "u_firstName renameUpdate = Some ''Augusta''" "u_lastName renameUpdate = None"
    by (simp_all add: renameUpdate_def noUpdates_def)
  from updateReservation_merges [OF ok, of stateAB]
  have m: "fst (updateReservation dbOk ''r-1'' renameUpdate stateAB) = Inr ()"
    "length (reservations (snd (updateReservation dbOk ''r-1'' renameUpdate stateAB))) = 2"
    and k: "\<And>k. k < 2 \<Longrightarrow>
            (let old = [resA, resB] ! k;
                new = reservations (snd (updateReservation dbOk ''r-1'' renameUpdate stateAB)) ! k
            in if idR old \<noteq> ''r-1'' then new = old
               else firstName new = pick (u_firstName renameUpdate) (firstName old) \<and>
                    lastName new = pick (u_lastName renameUpdate) (lastName old))"
    by (simp_all add: stateAB_def Let_def)
  from k [of 0] k [of 1] m show ?thesis
    by (simp add: ids u pick_def Let_def)
qed

text \<open>
  Claim C8. When the write of a create, an update or a delete fails, the promise is
  rejected with the error of the persistence layer, the local collection is the one before
  the call, and exactly one request has been sent: the write is not repeated.
\<close>

theorem failed_write_leaves_collection:
  "(insert_row db r = Inl e \<longrightarrow>
      fst (addReservation db r st) = Inl e \<and>
      reservations (snd (addReservation db r st)) = reservations st \<and>
      sent (snd (addReservation db r st)) = sent st @ [InsertReq r]) \<and>
   (update_rows db i u = Some e \<longrightarrow>
      fst (updateReservation db i u st) = Inl e \<and>
      reservations (snd (updateReservation db i u st)) = reservations st \<and>
      sent (snd (updateReservation db i u st)) = sent st @ [UpdateReq i u]) \<and>
   (delete_rows db i = Some e \<longrightarrow>
      fst (deleteReservation db i st) = Inl e \<and>
      reservations (snd (deleteReservation db i st)) = reservations st \<and>
      sent (snd (deleteReservation db i st)) = sent st @ [DeleteReq i])"
  by (simp add: addReservation_def updateReservation_def deleteReservation_def Let_def)

theorem failed_write_leaves_collection_witness:
  "fst (addReservation dbDown resA stateAB) = Inl ''connection refused'' \<and>
   reservations (snd (addReservation dbDown resA stateAB)) = [resA, resB] \<and>
   fst (updateReservation dbDown ''r-1'' renameUpdate stateAB) = Inl ''connection refused'' \<and>
   reservations (snd (updateReservation dbDown ''r-1'' renameUpdate stateAB)) = [resA, resB] \<and>
   fst (deleteReservation dbDown ''r-1'' stateAB) = Inl ''connection refused'' \<and>
   reservations (snd (deleteReservation dbDown ''r-1'' stateAB)) = [resA, resB]"
proof -
  have f: "insert_row dbDown resA = Inl ''connection refused''"
    "update_rows dbDown ''r-1'' renameUpdate = Some ''connection refused''"
    "delete_rows dbDown ''r-1'' = Some ''connection refused''"
    by (simp_all add: dbDown_def)
  have s: "reservations stateAB = [resA, resB]"
    by (simp add: stateAB_def)
  show ?thesis
    using failed_write_leaves_collection
      [of dbDown resA "''connection refused''" stateAB "''r-1''" renameUpdate] f s
    by simp
qed

text \<open>
  Claim C9. The rest-paid button sends the negated rest-paid flag together with the
  legacy flag: when rest-paid was false, both become true in the one update; when rest-paid
  was true, it becomes false and the legacy flag is sent with the value it has. The
  deposit-paid button sends the negated deposit-paid flag alone, so the legacy flag keeps
  its value.
\<close>

theorem payment_toggles_legacy_flag:
  "(\<not> restPaidStatus r \<longrightarrow>
      restPaidStatus (spread r (restPaidToggle r)) \<and> isPaid (spread r (restPaidToggle r)) \<and>
      u_restPaidStatus (restPaidToggle r) = Some True \<and>
      u_isPaid (restPaidToggle r) = Some True) \<and>
   (restPaidStatus r \<longrightarrow>
      \<not> restPaidStatus (spread r (restPaidToggle r)) \<and>
      isPaid (spread r (restPaidToggle r)) = isPaid r \<and>
      u_isPaid (restPaidToggle r) = Some (isPaid r)) \<and>
   u_isPaid (depositPaidToggle r) = None \<and>
   isPaid (spread r (depositPaidToggle r)) = isPaid r \<and>
   depositPaidStatus (spread r (depositPaidToggle r)) = (\<not> depositPaidStatus r)"
  by (simp add: spread_fields restPaidToggle_def depositPaidToggle_def noUpdates_def pick_def)

theorem payment_toggles_legacy_flag_witness:
  "restPaidStatus (spread resA (restPaidToggle resA)) \<and>
   isPaid (spread resA (restPaidToggle resA)) \<and>
   \<not> isPaid resA \<and>
   \<not> restPaidStatus (spread resB (restPaidToggle resB)) \<and>
   isPaid (spread resB (restPaidToggle resB)) = isPaid resB \<and>
   isPaid (spread resA (depositPaidToggle resA)) = isPaid resA"
proof -
  have a: "\<not> restPaidStatus resA" "\<not> isPaid resA" by (simp_all add: resA_def)
  have b: "restPaidStatus resB" by (simp add: resB_def)
  show ?thesis
    using payment_toggles_legacy_flag [of resA] payment_toggles_legacy_flag [of resB] a b
    by simp
qed

section \<open>The inbound email function\<close>

text \<open>
  Claim C3, as the code has it. The stored message identifier is the supplied
  \<open>Message-Id\<close> when that is present and not empty. Otherwise, when it is missing or
  empty, the identifier is the sender, a hyphen and the decimal numeral of the clock in
  milliseconds, a missing sender reading \<open>undefined\<close>; two such requests with the same
  sender and different clock values get different identifiers.
\<close>

theorem message_id_derivation:
  "(p_Message_Id e = Some h \<and> h \<noteq> [] \<longrightarrow> message_id (emailRow rt e hdrs t) = h) \<and>
   (\<not> truthy (p_Message_Id e) \<longrightarrow>
      message_id (emailRow rt e hdrs t) =
        toStr (p_sender e) @ ''-'' @ numberToString (Date_now rt)) \<and>
   (\<not> truthy (p_Message_Id e) \<and> \<not> truthy (p_Message_Id e') \<and>
    p_sender e = p_sender e' \<and> Date_now rt \<noteq> Date_now rt' \<longrightarrow>
      message_id (emailRow rt e hdrs t) \<noteq> message_id (emailRow rt' e' hdrs' t'))"
proof -
  have a: "p_Message_Id e = Some h \<and> h \<noteq> [] \<longrightarrow> message_id (emailRow rt e hdrs t) = h"
    by (simp add: emailRow_def messageId_def orElse_def)
  have b: "message_id (emailRow r x hh tt) =
        toStr (p_sender x) @ ''-'' @ numberToString (Date_now r)"
    if "\<not> truthy (p_Message_Id x)" for r x hh tt
    using that by (simp add: emailRow_def messageId_def orElse_def truthy_def split: option.splits)
  have c: "toStr s @ ''-'' @ numberToString x \<noteq> toStr s @ ''-'' @ numberToString y"
    if "x \<noteq> y" for s x y
    using that numberToString_inj by auto
  show ?thesis using a b c by metis
qed

theorem message_id_derivation_witness:
  "message_id (emailRow rtA payloadWithId None 0) = ''<m1@mail>'' \<and>
   message_id (emailRow rtA payloadNoId None 0) = ''a@b.com-1759397400000'' \<and>
   message_id (emailRow rtA payloadNoId None 0) \<noteq> message_id (emailRow rtB payloadNoId None 0)"
proof -
  have h: "p_Message_Id payloadWithId = Some ''<m1@mail>''"
    by (simp add: payloadWithId_def noPayload_def)
  have n: "\<not> truthy (p_Message_Id payloadNoId)"
    by (simp add: payloadNoId_def noPayload_def truthy_def)
  have t: "Date_now rtA \<noteq> Date_now rtB"
    by (simp add: rtA_def rtB_def)
  have s: "toStr (p_sender payloadNoId) @ ''-'' @ numberToString (Date_now rtA) =
           ''a@b.com-1759397400000''"
    by (simp add: payloadNoId_def noPayload_def toStr_def rtA_def numberToString_def
          digitsOf.simps digitChar_values)
  note d1 = message_id_derivation
    [of payloadWithId "''<m1@mail>''" rtA None 0 payloadNoId rtB None 0]
  note d2 = message_id_derivation
    [of payloadNoId "''x''" rtA None 0 payloadNoId rtB None 0]
  from d1 h have c1: "message_id (emailRow rtA payloadWithId None 0) = ''<m1@mail>''"
    by simp
  from d2 n have c2: "message_id (emailRow rtA payloadNoId None 0) =
      toStr (p_sender payloadNoId) @ ''-'' @ numberToString (Date_now rtA)"
    by blast
  from d2 n t have c3: "message_id (emailRow rtA payloadNoId None 0) \<noteq>
      message_id (emailRow rtB payloadNoId None 0)"
    by blast
  from c1 c2 c3 show ?thesis
    unfolding s by blast
qed

text \<open>
  Claim C3 as the specification words it fails when the \<open>Message-Id\<close> is present
  and empty: the operator \<open>||\<close> passes over the empty string, and the stored identifier
  is built from the sender and the clock instead of being the supplied value.
\<close>

theorem message_id_empty_header:
  "p_Message_Id payloadEmptyId = Some [] \<and>
   message_id (emailRow rtA payloadEmptyId None 1759397400000) = ''a@b.com-1759397400000''"
  by (simp add: payloadEmptyId_def noPayload_def emailRow_def messageId_def orElse_def toStr_def
        rtA_def numberToString_def digitsOf.simps digitChar_values)

lemma say_fields [simp]:
  "emails (say l w) = emails w"
  "email_attachments (say l w) = email_attachments w"
  "w_console (say l w) = w_console w @ [l]"
  by (simp_all add: say_def)

lemma processAttachment_emails [simp]:
  "emails (processAttachment db eid n a w) = emails w"
  by (simp add: processAttachment_def split: att_outcome.splits)

lemma processAttachment_rows:
  "length (email_attachments (processAttachment db eid n a w)) =
     length (email_attachments w) + (if stored db eid (n, a) then 1 else 0)"
  by (simp add: processAttachment_def stored_def split: att_outcome.splits)

lemma processAttachment_errors:
  "length (filter isError (w_console (processAttachment db eid n a w))) =
     length (filter isError (w_console w)) + (if stored db eid (n, a) then 0 else 1)"
  by (simp add: processAttachment_def stored_def split: att_outcome.splits)

lemma processAttachments_emails [simp]:
  "emails (processAttachments db eid n atts w) = emails w"
  by (induction atts arbitrary: n w) simp_all

lemma processAttachments_rows:
  "length (email_attachments (processAttachments db eid n atts w)) =
     length (email_attachments w) + length (filter (stored db eid) (enumerate n atts))"
  by (induction atts arbitrary: n w) (simp_all add: processAttachment_rows)

lemma processAttachments_errors:
  "length (filter isError (w_console (processAttachments db eid n atts w))) =
     length (filter isError (w_console w)) +
     length (filter (\<lambda>na. \<not> stored db eid na) (enumerate n atts))"
  by (induction atts arbitrary: n w) (simp_all add: processAttachment_errors)

lemma parseHeaders_world:
  "emails (snd (parseHeaders rt e w)) = emails w"
  "email_attachments (snd (parseHeaders rt e w)) = email_attachments w"
  "filter isError (w_console (snd (parseHeaders rt e w))) = filter isError (w_console w)"
  by (simp_all add: parseHeaders_def split: option.splits)

lemma parseHeaders_fst: "fst (parseHeaders rt e w) = fst (parseHeaders rt e w')"
  by (simp add: parseHeaders_def split: option.splits)

lemma tryBlock_success:
  assumes "truthy (SUPABASE_URL rt)" and "truthy (SUPABASE_SERVICE_ROLE_KEY rt)"
    and "readBody req = Inr emailData"
    and "receivedAt rt emailData = Inr received"
    and "insert_email db (emailRow rt emailData (fst (parseHeaders rt emailData w)) received) = Inr eid"
  shows "tryBlock rt db req w =
    (Inr eid,
     let w2 = snd (parseHeaders rt emailData (say (Log ''Received email data:'') w));
         w3 = say (Log ''Email inserted successfully:'')
                (w2\<lparr>emails := emails w2 @
                   [emailRow rt emailData (fst (parseHeaders rt emailData w)) received]\<rparr>)
     in if attachmentsOf emailData = [] then w3
        else processAttachments db eid 0 (attachmentsOf emailData)
               (say (Log ''Processing attachments'') w3))"
proof -
  obtain hdrs w2 where ph: "parseHeaders rt emailData (say (Log ''Received email data:'') w) = (hdrs, w2)"
    by (cases "parseHeaders rt emailData (say (Log ''Received email data:'') w)")
  have h: "hdrs = fst (parseHeaders rt emailData w)"
    using ph parseHeaders_fst [of rt emailData "say (Log ''Received email data:'') w" w] by simp
  show ?thesis
    using assms ph h
    by (simp add: tryBlock_def Let_def attachmentsOf_def split: option.splits)
qed

text \<open>
  Claim C4. For a request other than \<open>OPTIONS\<close> that is configured, readable and
  whose email insert succeeds with id \<open>eid\<close>, the response is status 200 with the success
  body carrying \<open>eid\<close>, whatever the attachment inserts answer (\<open>f\<close> is arbitrary). The
  loop visits every attachment: each stored one adds a row and each failed one, whether the
  insert answers with an error or is rejected, adds one \<open>console.error\<close> line.
\<close>

theorem attachment_failures_not_escalated:
  assumes "req_method req \<noteq> ''OPTIONS''"
    and "truthy (SUPABASE_URL rt)" and "truthy (SUPABASE_SERVICE_ROLE_KEY rt)"
    and "readBody req = Inr emailData"
    and "receivedAt rt emailData = Inr received"
    and "insert_email db (emailRow rt emailData (fst (parseHeaders rt emailData w)) received) = Inr eid"
  shows "fst (handler rt (db\<lparr>insert_attachment := f\<rparr>) req w) =
           \<lparr>status = 200, body = SuccessBody eid\<rparr> \<and>
         length (email_attachments (snd (handler rt (db\<lparr>insert_attachment := f\<rparr>) req w))) =
           length (email_attachments w) +
           length (filter (stored (db\<lparr>insert_attachment := f\<rparr>) eid)
                     (enumerate 0 (attachmentsOf emailData))) \<and>
         length (filter isError (w_console (snd (handler rt (db\<lparr>insert_attachment := f\<rparr>) req w)))) =
           length (filter isError (w_console w)) +
           length (filter (\<lambda>na. \<not> stored (db\<lparr>insert_attachment := f\<rparr>) eid na)
                     (enumerate 0 (attachmentsOf emailData)))"
proof -
  let ?db = "db\<lparr>insert_attachment := f\<rparr>"
  have ins: "insert_email ?db (emailRow rt emailData (fst (parseHeaders rt emailData w)) received) = Inr eid"
    using assms(6) by simp
  note tb = tryBlock_success [OF assms(2) assms(3) assms(4) assms(5) ins]
  have r: "fst (handler rt ?db req w) = \<lparr>status = 200, body = SuccessBody eid\<rparr>"
    using assms(1) by (simp add: handler_def tb)
  have w': "snd (handler rt ?db req w) = snd (tryBlock rt ?db req w)"
    using assms(1) by (simp add: handler_def tb)
  have a: "length (email_attachments (snd (tryBlock rt ?db req w))) =
           length (email_attachments w) +
           length (filter (stored ?db eid) (enumerate 0 (attachmentsOf emailData)))"
    by (simp add: tb Let_def processAttachments_rows parseHeaders_world)
  have e: "length (filter isError (w_console (snd (tryBlock rt ?db req w)))) =
           length (filter isError (w_console w)) +
           length (filter (\<lambda>na. \<not> stored ?db eid na) (enumerate 0 (attachmentsOf emailData)))"
    by (simp add: tb Let_def processAttachments_errors parseHeaders_world)
  show ?thesis
    using r a e unfolding w' by blast
qed

theorem attachment_failures_not_escalated_witness:
  "fst (handler rtA (dbMail\<lparr>insert_attachment := failingInserts\<rparr>) reqAtt emptyWorld) =
     \<lparr>status = 200, body = SuccessBody ''e-1''\<rparr> \<and>
   length (email_attachments
     (snd (handler rtA (dbMail\<lparr>insert_attachment := failingInserts\<rparr>) reqAtt emptyWorld))) = 0 \<and>
   length (filter isError (w_console
     (snd (handler rtA (dbMail\<lparr>insert_attachment := failingInserts\<rparr>) reqAtt emptyWorld)))) = 2"
proof -
  have m: "req_method reqAtt \<noteq> ''OPTIONS''" by (simp add: reqAtt_def)
  have u: "truthy (SUPABASE_URL rtA)" and k: "truthy (SUPABASE_SERVICE_ROLE_KEY rtA)"
    by (simp_all add: rtA_def truthy_def)
  have b: "readBody reqAtt = Inr payloadAtt" by code_simp
  have r: "receivedAt rtA payloadAtt = Inr 1759397400000" by code_simp
  have i: "insert_email dbMail
             (emailRow rtA payloadAtt (fst (parseHeaders rtA payloadAtt emptyWorld)) 1759397400000) =
           Inr ''e-1''"
    by (simp add: dbMail_def)
  have a: "length (filter (stored (dbMail\<lparr>insert_attachment := failingInserts\<rparr>) ''e-1'')
             (enumerate 0 (attachmentsOf payloadAtt))) = 0"
    by code_simp
  have e: "length (filter (\<lambda>na. \<not> stored (dbMail\<lparr>insert_attachment := failingInserts\<rparr>) ''e-1'' na)
             (enumerate 0 (attachmentsOf payloadAtt))) = 2"
    by code_simp
  have w: "email_attachments emptyWorld = []" "w_console emptyWorld = []"
    by (simp_all add: emptyWorld_def)
  show ?thesis
    using attachment_failures_not_escalated [OF m u k b r i, of failingInserts]
    by (simp only: a e w list.size filter.simps add_0)
qed

lemma tryBlock_emails:
  "emails (snd (tryBlock rt db req w)) = emails w \<or>
   (\<exists>emailData hdrs received. readBody req = Inr emailData \<and>
      emails (snd (tryBlock rt db req w)) = emails w @ [emailRow rt emailData hdrs received])"
proof (cases "readBody req")
  case (Inl e)
  then show ?thesis by (simp add: tryBlock_def)
next
  case (Inr emailData)
  obtain hdrs w2 where ph: "parseHeaders rt emailData (say (Log ''Received email data:'') w) = (hdrs, w2)"
    by (cases "parseHeaders rt emailData (say (Log ''Received email data:'') w)")
  then have w2: "emails w2 = emails w"
    using parseHeaders_world(1) [of rt emailData "say (Log ''Received email data:'') w"] by simp
  show ?thesis
    using Inr ph w2
    by (auto simp: tryBlock_def Let_def split: sum.splits option.splits)
qed

lemma handler_emails:
  "emails (snd (handler rt db req w)) = emails (snd (tryBlock rt db req w)) \<or>
   emails (snd (handler rt db req w)) = emails w"
  by (auto simp: handler_def split: prod.splits sum.splits)

text \<open>
  Claim C10. Every email row that a run of the function adds to the table has direction
  \<open>inbound\<close> and is neither read nor archived; its subject is \<open>(No Subject)\<close> when the
  payload has no subject, and its from address is \<open>unknown@sender.com\<close> when the payload
  has neither sender nor from.
\<close>

theorem written_email_rows:
  assumes "row \<in> set (emails (snd (handler rt db req w)))" and "row \<notin> set (emails w)"
  shows "direction row = ''inbound'' \<and> \<not> is_read row \<and> \<not> is_archived row \<and>
         (\<exists>emailData. readBody req = Inr emailData \<and>
            (p_subject emailData = None \<longrightarrow> subject row = ''(No Subject)'') \<and>
            (p_sender emailData = None \<and> p_from emailData = None \<longrightarrow>
               from_address row = ''unknown@sender.com''))"
proof -
  from assms handler_emails [of rt db req w]
  have "row \<in> set (emails (snd (tryBlock rt db req w)))" by auto
  with assms(2) tryBlock_emails [of rt db req w]
  obtain emailData hdrs received where rb: "readBody req = Inr emailData"
    and row: "row = emailRow rt emailData hdrs received"
    by auto
  show ?thesis
    using rb unfolding row
    by (simp add: emailRow_def fromAddress_def orElse_def)
qed

theorem written_email_rows_witness:
  "emails (snd (handler rtA dbMail reqBare emptyWorld)) =
     [emailRow rtA noPayload None 1759397400000] \<and>
   direction (emailRow rtA noPayload None 1759397400000) = ''inbound'' \<and>
   \<not> is_read (emailRow rtA noPayload None 1759397400000) \<and>
   \<not> is_archived (emailRow rtA noPayload None 1759397400000) \<and>
   subject (emailRow rtA noPayload None 1759397400000) = ''(No Subject)'' \<and>
   from_address (emailRow rtA noPayload None 1759397400000) = ''unknown@sender.com''"
proof -
  have m: "req_method reqBare \<noteq> ''OPTIONS''" by (simp add: reqBare_def)
  have u: "truthy (SUPABASE_URL rtA)" and k: "truthy (SUPABASE_SERVICE_ROLE_KEY rtA)"
    by (simp_all add: rtA_def truthy_def)
  have b: "readBody reqBare = Inr noPayload" by code_simp
  have r: "receivedAt rtA noPayload = Inr 1759397400000" by code_simp
  have h: "parseHeaders rtA noPayload x = (None, x)" for x
    by (simp add: parseHeaders_def noPayload_def truthy_def)
  have i: "insert_email dbMail
             (emailRow rtA noPayload (fst (parseHeaders rtA noPayload emptyWorld)) 1759397400000) =
           Inr ''e-1''"
    by (simp add: dbMail_def)
  have a: "attachmentsOf noPayload = []"
    by (simp add: attachmentsOf_def noPayload_def)
  have e0: "emails emptyWorld = []"
    by (simp add: emptyWorld_def)
  have w: "emails (snd (handler rtA dbMail reqBare emptyWorld)) =
     [emailRow rtA noPayload None 1759397400000]"
    using m e0 by (simp add: handler_def tryBlock_success [OF u k b r i] a h)
  have p: "p_subject noPayload = None" "p_sender noPayload = None" "p_from noPayload = None"
    by (simp_all add: noPayload_def)
  have i: "emailRow rtA noPayload None 1759397400000 \<in> set (emails (snd (handler rtA dbMail reqBare emptyWorld)))"
    by (simp add: w)
  have o: "emailRow rtA noPayload None 1759397400000 \<notin> set (emails emptyWorld)"
    by (simp add: emptyWorld_def)
  from written_email_rows [OF i o] b p w show ?thesis
    by auto
qed

end
